theory Spec2Isabelle
  imports Complex_Main
begin

section \<open>Python strings\<close>

text \<open>
  The coaching script \<^verbatim>\<open>scripts/llm_coach.py\<close> works on Python \<^verbatim>\<open>str\<close> values.
  They are modelled as \<^typ>\<open>string\<close>, a list of 8-bit characters, so the
  model covers texts whose code points are below 256.
\<close>

text \<open>\<^verbatim>\<open>s.startswith(p)\<close>, which is also how a literal piece of a regular expression
  is matched at a fixed position.\<close>

fun starts_with :: "string \<Rightarrow> string \<Rightarrow> bool" where
  "starts_with [] s = True"
| "starts_with (p # ps) [] = False"
| "starts_with (p # ps) (c # cs) = (p = c \<and> starts_with ps cs)"

text \<open>\<^verbatim>\<open>needle in s\<close>: the needle occurs somewhere in \<open>s\<close>.\<close>

fun contains :: "string \<Rightarrow> string \<Rightarrow> bool" where
  "contains needle [] = (needle = [])"
| "contains needle (c # cs) = (starts_with needle (c # cs) \<or> contains needle cs)"

text \<open>The characters below 256 for which \<^verbatim>\<open>str.isspace\<close> holds; \<^verbatim>\<open>str.strip()\<close>
  removes exactly these from both ends.\<close>

definition is_space :: "char \<Rightarrow> bool" where
  "is_space c = (of_char c \<in> set [9, 10, 11, 12, 13, 28, 29, 30, 31, 32, 133, 160 :: nat])"

definition strip :: "string \<Rightarrow> string" where
  "strip s = rev (dropWhile is_space (rev (dropWhile is_space s)))"

text \<open>\<^verbatim>\<open>s[-n:]\<close> for \<open>n > 0\<close> and \<^verbatim>\<open>s[:n]\<close>.\<close>

definition last_chars :: "nat \<Rightarrow> string \<Rightarrow> string" where
  "last_chars n s = drop (length s - n) s"

definition first_chars :: "nat \<Rightarrow> string \<Rightarrow> string" where
  "first_chars n s = take n s"

section \<open>The code extractor\<close>

text \<open>
  Every pattern of \<^verbatim>\<open>code_patterns\<close> has the shape \<^verbatim>\<open>PRE(.*?)SUF\<close> with literal
  \<^verbatim>\<open>PRE\<close> and \<^verbatim>\<open>SUF\<close>, and is used with \<^verbatim>\<open>re.DOTALL\<close>, so the group matches any
  characters, lazily. A pattern is kept as the pair \<open>(PRE, SUF)\<close>.

  \<open>split_first needle s\<close> cuts \<open>s\<close> at the leftmost occurrence of \<open>needle\<close>
  and returns what is before and what is after it.
\<close>

fun split_first :: "string \<Rightarrow> string \<Rightarrow> (string \<times> string) option" where
  "split_first needle [] = (if needle = [] then Some ([], []) else None)"
| "split_first needle (c # cs) =
     (if starts_with needle (c # cs) then Some ([], drop (length needle) (c # cs))
      else case split_first needle cs of
             None \<Rightarrow> None
           | Some (before, after) \<Rightarrow> Some (c # before, after))"

text \<open>
  \<^verbatim>\<open>matches = re.findall(pattern, response_text, re.DOTALL)\<close> followed by
  \<^verbatim>\<open>if matches: ... matches[0]\<close>: only whether there is a match and the group of the
  first match are used. The regular-expression search takes the leftmost position
  where \<^verbatim>\<open>PRE\<close> occurs with \<^verbatim>\<open>SUF\<close> somewhere behind it, and the lazy group ends at the
  first such \<^verbatim>\<open>SUF\<close>. If no \<^verbatim>\<open>SUF\<close> follows the leftmost \<^verbatim>\<open>PRE\<close>, none follows a later
  one either, so the leftmost \<^verbatim>\<open>PRE\<close> decides. \<open>None\<close> is the empty list of matches.
\<close>

definition first_match :: "string \<times> string \<Rightarrow> string \<Rightarrow> string option" where
  "first_match pat s =
     (case split_first (fst pat) s of
        None \<Rightarrow> None
      | Some (before, rest) \<Rightarrow>
          (case split_first (snd pat) rest of
             None \<Rightarrow> None
           | Some (block, after) \<Rightarrow> Some block))"

definition code_patterns :: "(string \<times> string) list" where
  \<open>code_patterns =
     [(''```rust\<newline>'', ''\<newline>```''),
      (''```scrypto\<newline>'', ''\<newline>```''),
      (''```\<newline>'', ''\<newline>```''),
      (''```rust'', ''```''),
      (''```'', ''```'')]\<close>

definition scrypto_indicators :: "string list" where
  \<open>scrypto_indicators =
     [''use scrypto::prelude::*'',
      ''#[blueprint]'',
      ''impl'',
      ''ResourceAddress'',
      ''ComponentAddress'',
      ''Bucket'',
      ''Vault'']\<close>

text \<open>\<^verbatim>\<open>any(indicator in code for indicator in scrypto_indicators)\<close>\<close>

definition looks_like_scrypto :: "string \<Rightarrow> bool" where
  "looks_like_scrypto code = list_ex (\<lambda>indicator. contains indicator code) scrypto_indicators"

text \<open>The \<^verbatim>\<open>for pattern in code_patterns\<close> loop with its early \<^verbatim>\<open>return code\<close>.\<close>

fun try_patterns :: "(string \<times> string) list \<Rightarrow> string \<Rightarrow> string option" where
  "try_patterns [] response_text = None"
| "try_patterns (pattern # patterns) response_text =
     (case first_match pattern response_text of
        None \<Rightarrow> try_patterns patterns response_text
      | Some m \<Rightarrow>
          (let code = strip m in
           if looks_like_scrypto code then Some code
           else try_patterns patterns response_text))"

definition extract_scrypto_code :: "string \<Rightarrow> string option" where
  "extract_scrypto_code response_text =
     (case try_patterns code_patterns response_text of
        Some code \<Rightarrow> Some code
      | None \<Rightarrow>
          if looks_like_scrypto response_text then Some (strip response_text)
          else None)"

text \<open>
  The same algorithm in the words of the specification: every pattern, in the order of
  the list, contributes the block it matches (stripped); the result is the first of these
  blocks that passes the signature check; without one, the whole response if it passes
  the check; otherwise nothing.
\<close>

definition fenced_blocks :: "string \<Rightarrow> string list" where
  "fenced_blocks response_text =
     map strip (List.map_filter (\<lambda>pattern. first_match pattern response_text) code_patterns)"

definition extractor_spec :: "string \<Rightarrow> string option" where
  "extractor_spec response_text =
     (case find looks_like_scrypto (fenced_blocks response_text) of
        Some block \<Rightarrow> Some block
      | None \<Rightarrow>
          if looks_like_scrypto response_text then Some (strip response_text)
          else None)"

text \<open>A pattern matches a text when \<^verbatim>\<open>re.findall\<close> returns a non-empty list.\<close>

definition matches :: "string \<times> string \<Rightarrow> string \<Rightarrow> bool" where
  "matches pattern s = (first_match pattern s \<noteq> None)"

section \<open>Exceptions, paths and the file system\<close>

text \<open>
  Exceptions are values. Only subclasses of \<^verbatim>\<open>Exception\<close> are modelled (the handlers
  of the script catch nothing else); \<open>exn_str\<close> is \<^verbatim>\<open>str(e)\<close>.
\<close>

datatype exn_class =
  TimeoutExpired | FileNotFoundError | FileExistsError | IsADirectoryError
  | NotADirectoryError | ValueError | OtherException

datatype exn = Exn (exn_class: exn_class) (exn_str: string)

text \<open>
  A \<^verbatim>\<open>pathlib.Path\<close> on a POSIX system: whether it is absolute, and its components.
  \<open>p / name\<close> is only used with a single relative component on the right.
\<close>

datatype path = Path (is_absolute: bool) (parts: "string list")

definition path_join :: "path \<Rightarrow> string \<Rightarrow> path" where
  "path_join p name = Path (is_absolute p) (parts p @ [name])"

definition parent :: "path \<Rightarrow> path" where
  "parent p = Path (is_absolute p) (butlast (parts p))"

fun join_with :: "string \<Rightarrow> string list \<Rightarrow> string" where
  "join_with sep [] = []"
| "join_with sep [x] = x"
| "join_with sep (x # y # ys) = x @ sep @ join_with sep (y # ys)"

definition str_path :: "path \<Rightarrow> string" where
  "str_path p =
     (if is_absolute p then ''/'' @ join_with ''/'' (parts p)
      else if parts p = [] then ''.'' else join_with ''/'' (parts p))"

text \<open>
  \<^verbatim>\<open>PurePath.relative_to(other)\<close> raises \<^verbatim>\<open>ValueError\<close> unless both paths have the same
  anchor and \<open>other\<close> is a prefix of the path; in particular it raises whenever one path
  is relative and the other absolute. The wording of the message differs between
  interpreter versions.
\<close>

definition relative_to :: "path \<Rightarrow> path \<Rightarrow> exn + path" where
  "relative_to p other =
     (if is_absolute p = is_absolute other
         \<and> take (length (parts other)) (parts p) = parts other
      then Inr (Path False (drop (length (parts other)) (parts p)))
      else Inl (Exn ValueError
             ([CHR 0x27] @ str_path p @ [CHR 0x27] @ '' is not in the subpath of ''
              @ [CHR 0x27] @ str_path other @ [CHR 0x27])))"

text \<open>
  The file system maps the components of an absolute path to what is there. The root
  always is a directory. A relative path is resolved against the working directory.
\<close>

datatype node = Dir | File string

type_synonym filesystem = "string list \<Rightarrow> node option"

definition node_at :: "filesystem \<Rightarrow> string list \<Rightarrow> node option" where
  "node_at files ps = (if ps = [] then Some Dir else files ps)"

definition resolve :: "string list \<Rightarrow> path \<Rightarrow> string list" where
  "resolve working_dir p = (if is_absolute p then parts p else working_dir @ parts p)"

definition os_error :: "exn_class \<Rightarrow> string \<Rightarrow> path \<Rightarrow> exn" where
  "os_error cls what p = Exn cls (what @ '': '' @ [CHR 0x27] @ str_path p @ [CHR 0x27])"

text \<open>
  \<^verbatim>\<open>Path.mkdir(exist_ok=True)\<close>, without \<^verbatim>\<open>parents=True\<close>: an existing directory is
  left as it is; an existing file and a missing parent raise.
\<close>

definition mkdir_exist_ok :: "string list \<Rightarrow> path \<Rightarrow> filesystem \<Rightarrow> exn + filesystem" where
  "mkdir_exist_ok working_dir p files =
     (let ps = resolve working_dir p in
      case node_at files ps of
        Some Dir \<Rightarrow> Inr files
      | Some (File old) \<Rightarrow> Inl (os_error FileExistsError ''[Errno 17] File exists'' p)
      | None \<Rightarrow>
          (case node_at files (butlast ps) of
             Some Dir \<Rightarrow> Inr (files(ps \<mapsto> Dir))
           | Some (File old) \<Rightarrow> Inl (os_error NotADirectoryError ''[Errno 20] Not a directory'' p)
           | None \<Rightarrow> Inl (os_error FileNotFoundError ''[Errno 2] No such file or directory'' p)))"

text \<open>
  \<^verbatim>\<open>Path.write_text(data)\<close> opens the file in mode \<^verbatim>\<open>w\<close>: the file is created or
  truncated, and holds exactly \<open>data\<close> afterwards.
\<close>

definition write_text :: "string list \<Rightarrow> path \<Rightarrow> string \<Rightarrow> filesystem \<Rightarrow> exn + filesystem" where
  "write_text working_dir p data files =
     (let ps = resolve working_dir p in
      case node_at files ps of
        Some Dir \<Rightarrow> Inl (os_error IsADirectoryError ''[Errno 21] Is a directory'' p)
      | other \<Rightarrow>
          (case node_at files (butlast ps) of
             Some Dir \<Rightarrow> Inr (files(ps \<mapsto> File data))
           | Some (File old) \<Rightarrow> Inl (os_error NotADirectoryError ''[Errno 20] Not a directory'' p)
           | None \<Rightarrow> Inl (os_error FileNotFoundError ''[Errno 2] No such file or directory'' p)))"

section \<open>Records of the result document\<close>

text \<open>
  The dictionaries appended to \<^verbatim>\<open>result["attempts"]\<close>; a key that a dictionary does not
  have is \<open>None\<close>.
\<close>

record attempt_rec =
  attempt :: int
  status :: string
  error :: "string option"
  response_preview :: "string option"
  code_file :: "string option"
  test_output :: "string option"
  test_type :: "string option"

record result_rec =
  prompt :: string
  timestamp :: string
  attempts :: "attempt_rec list"
  final_status :: string
  retry_count :: int

record summary_rec =
  total_attempts :: nat
  successful :: nat
  failed :: nat
  retry_rate :: real

record output_data =
  doc_timestamp :: string
  results :: "result_rec list"
  summary :: summary_rec

section \<open>The world outside the script\<close>

text \<open>
  What an external process does when it is started: it is not found, starting or
  talking to it raises another exception, it never ends, or it ends after some seconds
  with an exit code and its two output streams.
\<close>

datatype proc_behaviour =
  Exits int string string real
  | Hangs
  | Raises exn

text \<open>
  The environment of one interpreter process. \<open>str_hash\<close> is the built-in \<^verbatim>\<open>hash\<close>
  on strings (salted per interpreter process), \<open>llm\<close> the completion service
  (\<^verbatim>\<open>openai.ChatCompletion.create\<close> and the access to the content of its first choice:
  any exception raised there is an \<open>Inl\<close>), \<open>proc\<close> the external processes, \<open>now\<close> the
  clock, \<open>save_error\<close> whether writing \<^verbatim>\<open>results.json\<close> raises. The services are
  indexed by the number of earlier calls, since they need not answer twice alike.
\<close>

record env =
  cwd :: "string list"
  getenv_api_key :: "string option"
  str_hash :: "string \<Rightarrow> int"
  llm :: "nat \<Rightarrow> string \<Rightarrow> exn + string"
  proc :: "nat \<Rightarrow> string list \<Rightarrow> path \<Rightarrow> proc_behaviour"
  now :: "nat \<Rightarrow> string"
  save_error :: "nat \<Rightarrow> exn option"

text \<open>
  The state the script changes: the file system, the prompts sent to the completion
  service so far, the processes started so far (command, working directory, timeout),
  the documents written to \<^verbatim>\<open>results.json\<close> so far (each write replaces the file), and
  how often the clock was read. Console output is not modelled.
\<close>

record world =
  fs :: filesystem
  llm_calls :: "string list"
  proc_calls :: "(string list \<times> path \<times> real) list"
  saved :: "output_data list"
  clock_reads :: nat

definition utcnow :: "env \<Rightarrow> world \<Rightarrow> string \<times> world" where
  "utcnow E w = (now E (clock_reads w), w\<lparr>clock_reads := Suc (clock_reads w)\<rparr>)"

section \<open>The coach\<close>

text \<open>
  \<^verbatim>\<open>_load_knowledge_base\<close>: \<open>None\<close> when the directory \<^verbatim>\<open>kb/cleaned\<close> does not exist,
  otherwise its \<^verbatim>\<open>*.md\<close> files by name, each with its content or with the exception that
  reading it raises (such a file is skipped with a warning).
\<close>

fun context_parts :: "(string \<times> (exn + string)) list \<Rightarrow> string list" where
  "context_parts [] = []"
| "context_parts ((name, Inl e) # files) = context_parts files"
| "context_parts ((name, Inr content) # files) =
     (''=== '' @ name @ '' ===\<newline>'' @ first_chars 2000 content @ ''\<newline>'')
       # context_parts files"

definition load_knowledge_base :: "(string \<times> (exn + string)) list option \<Rightarrow> string" where
  "load_knowledge_base kb_dir =
     (case kb_dir of
        None \<Rightarrow> []
      | Some files \<Rightarrow> join_with ''\<newline>'' (take 5 (context_parts files)))"

record coach =
  api_key :: string
  output_dir :: path
  kb_context :: string

text \<open>
  \<^verbatim>\<open>__init__\<close>: the key comes from the argument or the environment (a missing or empty
  key raises), the output directory is the relative path \<^verbatim>\<open>output\<close> and is created.
\<close>

definition coach_init ::
  "env \<Rightarrow> string option \<Rightarrow> (string \<times> (exn + string)) list option \<Rightarrow> world
     \<Rightarrow> (exn + coach) \<times> world" where
  "coach_init E key_arg kb_dir w =
     (let key = (if key_arg = None \<or> key_arg = Some [] then getenv_api_key E else key_arg) in
      if key = None \<or> key = Some []
      then (Inl (Exn ValueError ''OpenAI API key required. Set OPENAI_API_KEY env var.''), w)
      else
        (case mkdir_exist_ok (cwd E) (Path False [''output'']) (fs w) of
           Inl e \<Rightarrow> (Inl e, w)
         | Inr files \<Rightarrow>
             (Inr \<lparr>api_key = the key, output_dir = Path False [''output''],
                   kb_context = load_knowledge_base kb_dir\<rparr>,
              w\<lparr>fs := files\<rparr>)))"

subsection \<open>Prompt builder\<close>

definition build_prompt :: "coach \<Rightarrow> string \<Rightarrow> string option \<Rightarrow> string" where
  \<open>build_prompt C user_request error_ctx =
     (let base_prompt =
        ''You are a Scrypto (RadixDLT smart contract) code generator.\<newline>''
        @ ''\<newline>''
        @ ''CONTEXT - Key Scrypto Patterns:\<newline>''
        @ first_chars 1500 (kb_context C) @ ''\<newline>''
        @ ''\<newline>''
        @ ''INSTRUCTIONS:\<newline>''
        @ ''1. Generate COMPLETE, COMPILABLE Scrypto code\<newline>''
        @ ''2. Include ALL necessary imports\<newline>''
        @ ''3. Use proper Scrypto v1.0+ syntax  \<newline>''
        @ ''4. Include basic tests\<newline>''
        @ ''5. Follow asset-oriented programming patterns\<newline>''
        @ ''6. Return ONLY the Rust/Scrypto code, no explanations\<newline>''
        @ ''\<newline>''
        @ ''USER REQUEST: '' @ user_request @ ''\<newline>''
      in
      case error_ctx of
        None \<Rightarrow> base_prompt
      | Some text \<Rightarrow>
          if text = [] then base_prompt
          else base_prompt
            @ ''\<newline>''
            @ ''\<newline>''
            @ ''PREVIOUS COMPILATION ERROR:\<newline>''
            @ text @ ''\<newline>''
            @ ''\<newline>''
            @ ''Please fix the above error and provide corrected code.\<newline>'')\<close>

subsection \<open>Artifact writer\<close>

definition cargo_toml :: "string \<Rightarrow> string" where
  \<open>cargo_toml blueprint_name =
     ''[package]\<newline>''
     @ ''name = "'' @ blueprint_name @ ''"\<newline>''
     @ ''version = "0.1.0"\<newline>''
     @ ''edition = "2021"\<newline>''
     @ ''\<newline>''
     @ ''[dependencies]\<newline>''
     @ ''scrypto = { git = "https://github.com/radixdlt/radixdlt-scrypto", tag = "v1.0.1" }\<newline>''
     @ ''\<newline>''
     @ ''[dev-dependencies]\<newline>''
     @ ''scrypto-unit = { git = "https://github.com/radixdlt/radixdlt-scrypto", tag = "v1.0.1" }\<newline>''
     @ ''transaction = { git = "https://github.com/radixdlt/radixdlt-scrypto", tag = "v1.0.1" }\<newline>''
     @ ''\<newline>''
     @ ''['' @ ''[bin]'' @ '']\<newline>''
     @ ''name = "main"\<newline>''\<close>

text \<open>
  \<^verbatim>\<open>_write_code_file\<close>. An exception leaves the method at once, with what was created
  before it still on disk; the file system reached is returned in both cases.
\<close>

definition write_code_file ::
  "coach \<Rightarrow> env \<Rightarrow> string \<Rightarrow> string \<Rightarrow> world \<Rightarrow> (exn + path) \<times> world" where
  "write_code_file C E code blueprint_name w =
     (let package_dir = path_join (output_dir C) blueprint_name in
      case mkdir_exist_ok (cwd E) package_dir (fs w) of
        Inl e \<Rightarrow> (Inl e, w)
      | Inr fs1 \<Rightarrow>
          (let src_dir = path_join package_dir ''src'' in
           case mkdir_exist_ok (cwd E) src_dir fs1 of
             Inl e \<Rightarrow> (Inl e, w\<lparr>fs := fs1\<rparr>)
           | Inr fs2 \<Rightarrow>
               (case write_text (cwd E) (path_join package_dir ''Cargo.toml'')
                       (cargo_toml blueprint_name) fs2 of
                  Inl e \<Rightarrow> (Inl e, w\<lparr>fs := fs2\<rparr>)
                | Inr fs3 \<Rightarrow>
                    (let code_path = path_join src_dir ''lib.rs'' in
                     case write_text (cwd E) code_path code fs3 of
                       Inl e \<Rightarrow> (Inl e, w\<lparr>fs := fs3\<rparr>)
                     | Inr fs4 \<Rightarrow> (Inr code_path, w\<lparr>fs := fs4\<rparr>)))))"

subsection \<open>Build and test runner\<close>

text \<open>
  \<^verbatim>\<open>subprocess.run(argv, cwd=..., capture_output=True, text=True, timeout=t)\<close>: the call
  is logged; a process that has not ended after \<open>t\<close> seconds is killed and
  \<^verbatim>\<open>TimeoutExpired\<close> is raised; a command that is not found raises
  \<^verbatim>\<open>FileNotFoundError\<close> (a \<open>Raises\<close> of that class); otherwise the exit code and the two
  captured streams come back.
\<close>

definition subprocess_run ::
  "env \<Rightarrow> string list \<Rightarrow> path \<Rightarrow> real \<Rightarrow> world \<Rightarrow> (exn + int \<times> string \<times> string) \<times> world" where
  "subprocess_run E argv dir timeout w =
     (let w' = w\<lparr>proc_calls := proc_calls w @ [(argv, dir, timeout)]\<rparr>;
          expired = Exn TimeoutExpired
            (''Command '' @ join_with '' '' argv @ '' timed out'')
      in
      case proc E (length (proc_calls w)) argv dir of
        Exits returncode out err seconds \<Rightarrow>
          if seconds > timeout then (Inl expired, w')
          else (Inr (returncode, out, err), w')
      | Hangs \<Rightarrow> (Inl expired, w')
      | Raises e \<Rightarrow> (Inl e, w'))"

text \<open>The three \<^verbatim>\<open>except\<close> clauses of \<^verbatim>\<open>_run_tests\<close>, in their order.\<close>

definition run_tests_except :: "exn \<Rightarrow> bool \<times> string \<times> string" where
  "run_tests_except e =
     (if exn_class e = TimeoutExpired then (False, ''Test execution timed out'', ''timeout'')
      else if exn_class e = FileNotFoundError
        then (False, ''cargo command not found'', ''missing_cargo'')
      else (False, ''Test execution failed: '' @ exn_str e, ''execution_error''))"

definition run_tests :: "env \<Rightarrow> path \<Rightarrow> world \<Rightarrow> (bool \<times> string \<times> string) \<times> world" where
  "run_tests E package_dir w =
     (case subprocess_run E [''cargo'', ''check''] package_dir 60 w of
        (Inl e, w1) \<Rightarrow> (run_tests_except e, w1)
      | (Inr (compile_returncode, compile_stdout, compile_stderr), w1) \<Rightarrow>
          if compile_returncode \<noteq> 0
          then ((False, compile_stderr, ''compilation_error''), w1)
          else
            (case subprocess_run E [''cargo'', ''test''] package_dir 120 w1 of
               (Inl e, w2) \<Rightarrow> (run_tests_except e, w2)
             | (Inr (test_returncode, test_stdout, test_stderr), w2) \<Rightarrow>
                 ((test_returncode = 0, test_stdout @ test_stderr, ''test_complete''), w2)))"

subsection \<open>Retry controller\<close>

text \<open>Decimal digits of an integer, as an f-string formats it.\<close>

function str_nat :: "nat \<Rightarrow> string" where
  "str_nat n =
     (if n < 10 then [char_of (48 + n)]
      else str_nat (n div 10) @ [char_of (48 + n mod 10)])"
  by pat_completeness auto
termination
  by (relation "measure (\<lambda>n. n)") auto

definition str_int :: "int \<Rightarrow> string" where
  "str_int i = (if i < 0 then ''-'' @ str_nat (nat (- i)) else str_nat (nat i))"

text \<open>\<^verbatim>\<open>f"generated_{hash(prompt) % 10000}"\<close>; the remainder of \<^verbatim>\<open>%\<close> by a positive
  number is never negative, as with \<open>mod\<close> on \<^typ>\<open>int\<close>.\<close>

definition blueprint_name_of :: "env \<Rightarrow> string \<Rightarrow> string" where
  "blueprint_name_of E user_request = ''generated_'' @ str_int (str_hash E user_request mod 10000)"

text \<open>
  The variables that live across iterations of the loop of \<^verbatim>\<open>generate_and_test\<close>:
  the world, the \<^verbatim>\<open>result\<close> dictionary and \<^verbatim>\<open>error_context\<close>.
\<close>

record loop_state =
  wld :: world
  res :: result_rec
  error_context :: "string option"

datatype flow = Continue | Break

definition append_attempt :: "attempt_rec \<Rightarrow> result_rec \<Rightarrow> result_rec" where
  "append_attempt r result = result\<lparr>attempts := attempts result @ [r]\<rparr>"

definition extraction_failed_rec :: "int \<Rightarrow> string \<Rightarrow> attempt_rec" where
  "extraction_failed_rec i response_text =
     \<lparr>attempt = i + 1, status = ''failed'',
      error = Some ''Could not extract valid Scrypto code'',
      response_preview = Some (first_chars 200 response_text),
      code_file = None, test_output = None, test_type = None\<rparr>"

definition api_error_rec :: "int \<Rightarrow> exn \<Rightarrow> attempt_rec" where
  "api_error_rec i e =
     \<lparr>attempt = i + 1, status = ''failed'',
      error = Some (''LLM API error: '' @ exn_str e),
      response_preview = None, code_file = None, test_output = None, test_type = None\<rparr>"

definition generation_error_rec :: "int \<Rightarrow> exn \<Rightarrow> attempt_rec" where
  "generation_error_rec i e =
     \<lparr>attempt = i + 1, status = ''failed'',
      error = Some (''Code generation error: '' @ exn_str e),
      response_preview = None, code_file = None, test_output = None, test_type = None\<rparr>"

definition attempt_result :: "int \<Rightarrow> bool \<Rightarrow> path \<Rightarrow> string \<Rightarrow> string \<Rightarrow> attempt_rec" where
  "attempt_result i success rel_path out kind =
     \<lparr>attempt = i + 1, status = (if success then ''passed'' else ''failed''),
      error = None, response_preview = None,
      code_file = Some (str_path rel_path), test_output = Some out, test_type = Some kind\<rparr>"

text \<open>
  The second \<^verbatim>\<open>try\<close> block of the loop body (write and test), for attempt \<open>i\<close>. The
  dictionary \<^verbatim>\<open>attempt_result\<close> is built after the tests have run, and building it
  calls \<^verbatim>\<open>code_file.relative_to(Path.cwd())\<close>: when that raises, nothing of the
  \<^verbatim>\<open>try\<close> block after it is executed and the handler records a generation error.
\<close>

definition write_and_test ::
  "coach \<Rightarrow> env \<Rightarrow> string \<Rightarrow> int \<Rightarrow> int \<Rightarrow> string \<Rightarrow> loop_state \<Rightarrow> flow \<times> loop_state" where
  "write_and_test C E user_request max_retries i code st =
     (let blueprint_name = blueprint_name_of E user_request in
      case write_code_file C E code blueprint_name (wld st) of
        (Inl e, w1) \<Rightarrow>
          (Continue, st\<lparr>wld := w1, res := append_attempt (generation_error_rec i e) (res st)\<rparr>)
      | (Inr code_path, w1) \<Rightarrow>
          (let package_dir = parent (parent code_path) in
           case run_tests E package_dir w1 of
             ((success, out, kind), w2) \<Rightarrow>
               (case relative_to code_path (Path True (cwd E)) of
                  Inl e \<Rightarrow>
                    (Continue,
                     st\<lparr>wld := w2, res := append_attempt (generation_error_rec i e) (res st)\<rparr>)
                | Inr rel_path \<Rightarrow>
                    (let result1 =
                       append_attempt (attempt_result i success rel_path out kind) (res st)
                     in
                     if success
                     then (Break,
                           st\<lparr>wld := w2,
                              res := result1\<lparr>final_status := ''passed'', retry_count := i\<rparr>\<rparr>)
                     else if i < max_retries
                     then (Continue,
                           st\<lparr>wld := w2, res := result1\<lparr>retry_count := i + 1\<rparr>,
                              error_context := Some (last_chars 1000 out)\<rparr>)
                     else (Continue, st\<lparr>wld := w2, res := result1\<rparr>)))))"

text \<open>
  One iteration of the loop: the first \<^verbatim>\<open>try\<close> block (prompt, completion, extraction),
  then \<open>write_and_test\<close>. \<^verbatim>\<open>if not code\<close> holds for \<^verbatim>\<open>None\<close> and for the empty string.
\<close>

definition one_attempt ::
  "coach \<Rightarrow> env \<Rightarrow> string \<Rightarrow> int \<Rightarrow> int \<Rightarrow> loop_state \<Rightarrow> flow \<times> loop_state" where
  "one_attempt C E user_request max_retries i st =
     (let full_prompt = build_prompt C user_request (error_context st);
          w0 = wld st;
          w1 = w0\<lparr>llm_calls := llm_calls w0 @ [full_prompt]\<rparr>
      in
      case llm E (length (llm_calls w0)) full_prompt of
        Inl e \<Rightarrow>
          (Continue, st\<lparr>wld := w1, res := append_attempt (api_error_rec i e) (res st)\<rparr>)
      | Inr response_text \<Rightarrow>
          (let no_code =
             (Continue,
              st\<lparr>wld := w1,
                 res := append_attempt (extraction_failed_rec i response_text) (res st)\<rparr>)
           in
           case extract_scrypto_code response_text of
             None \<Rightarrow> no_code
           | Some code \<Rightarrow>
               if code = [] then no_code
               else write_and_test C E user_request max_retries i code (st\<lparr>wld := w1\<rparr>)))"

text \<open>\<^verbatim>\<open>for attempt in range(max_retries + 1)\<close>, from attempt \<open>i\<close> on.\<close>

function attempts_loop ::
  "coach \<Rightarrow> env \<Rightarrow> string \<Rightarrow> int \<Rightarrow> int \<Rightarrow> loop_state \<Rightarrow> loop_state" where
  "attempts_loop C E user_request max_retries i st =
     (if i < max_retries + 1
      then
        (case one_attempt C E user_request max_retries i st of
           (Break, st') \<Rightarrow> st'
         | (Continue, st') \<Rightarrow> attempts_loop C E user_request max_retries (i + 1) st')
      else st)"
  by pat_completeness auto
termination
  by (relation "measure (\<lambda>(C, E, user_request, max_retries, i, st). nat (max_retries + 1 - i))")
     auto

definition initial_state :: "env \<Rightarrow> string \<Rightarrow> world \<Rightarrow> loop_state" where
  "initial_state E user_request w =
     (case utcnow E w of
        (stamp, w') \<Rightarrow>
          \<lparr>wld = w',
           res = \<lparr>prompt = user_request, timestamp = stamp, attempts = [],
                  final_status = ''failed'', retry_count = 0\<rparr>,
           error_context = None\<rparr>)"

definition generate_and_test ::
  "coach \<Rightarrow> env \<Rightarrow> string \<Rightarrow> int \<Rightarrow> world \<Rightarrow> result_rec \<times> world" where
  "generate_and_test C E user_request max_retries w =
     (let st = attempts_loop C E user_request max_retries 0 (initial_state E user_request w)
      in (res st, wld st))"

subsection \<open>Result aggregator\<close>

text \<open>
  \<^verbatim>\<open>_save_results\<close>. The two counts are sums of ones over a filtered generator; the
  retry rate is a true division, taken here as the exact quotient. The document is the
  structured value that \<^verbatim>\<open>json.dump\<close> serialises; when opening or writing the file
  raises, the exception leaves the method and nothing is recorded as saved.
\<close>

definition make_summary :: "result_rec list \<Rightarrow> summary_rec" where
  "make_summary rs =
     \<lparr>total_attempts = length rs,
      successful = sum_list (map (\<lambda>r. 1) (filter (\<lambda>r. final_status r = ''passed'') rs)),
      failed = sum_list (map (\<lambda>r. 1) (filter (\<lambda>r. final_status r = ''failed'') rs)),
      retry_rate =
        (if rs \<noteq> [] then real_of_int (sum_list (map retry_count rs)) / real (length rs)
         else 0)\<rparr>"

definition save_results :: "env \<Rightarrow> result_rec list \<Rightarrow> world \<Rightarrow> (exn + unit) \<times> world" where
  "save_results E rs w =
     (case utcnow E w of
        (stamp, w1) \<Rightarrow>
          (let output = \<lparr>doc_timestamp = stamp, results = rs, summary = make_summary rs\<rparr> in
           case save_error E (length (saved w1)) of
             Some e \<Rightarrow> (Inl e, w1)
           | None \<Rightarrow> (Inr (), w1\<lparr>saved := saved w1 @ [output]\<rparr>)))"

text \<open>
  \<^verbatim>\<open>batch_generate\<close>: the loop over the prompts, with the list \<^verbatim>\<open>results\<close> as
  accumulator; \<^verbatim>\<open>generate_and_test\<close> is called with its default \<^verbatim>\<open>max_retries = 1\<close>.
\<close>

fun batch_loop ::
  "coach \<Rightarrow> env \<Rightarrow> string list \<Rightarrow> result_rec list \<Rightarrow> world
     \<Rightarrow> (exn + result_rec list) \<times> world" where
  "batch_loop C E [] rs w = (Inr rs, w)"
| "batch_loop C E (user_request # prompts) rs w =
     (case generate_and_test C E user_request 1 w of
        (result, w1) \<Rightarrow>
          (case save_results E (rs @ [result]) w1 of
             (Inl e, w2) \<Rightarrow> (Inl e, w2)
           | (Inr u, w2) \<Rightarrow> batch_loop C E prompts (rs @ [result]) w2))"

definition batch_generate ::
  "coach \<Rightarrow> env \<Rightarrow> string list \<Rightarrow> world \<Rightarrow> (exn + result_rec list) \<times> world" where
  "batch_generate C E prompts w = batch_loop C E prompts [] w"

section \<open>Notions used to state the properties\<close>

text \<open>
  What the specification asks of the runner when a phase does not end with an exit code
  in time: for a process behaviour and the deadline of its phase, the triple that has to
  come back (\<open>None\<close> when the phase ends in time).
\<close>

definition phase_failure :: "real \<Rightarrow> proc_behaviour \<Rightarrow> (bool \<times> string \<times> string) option" where
  "phase_failure deadline b =
     (case b of
        Exits returncode out err seconds \<Rightarrow>
          if seconds > deadline then Some (False, ''Test execution timed out'', ''timeout'')
          else None
      | Hangs \<Rightarrow> Some (False, ''Test execution timed out'', ''timeout'')
      | Raises e \<Rightarrow>
          (case exn_class e of
             TimeoutExpired \<Rightarrow> Some (False, ''Test execution timed out'', ''timeout'')
           | FileNotFoundError \<Rightarrow> Some (False, ''cargo command not found'', ''missing_cargo'')
           | other \<Rightarrow>
               Some (False, ''Test execution failed: '' @ exn_str e, ''execution_error'')))"

text \<open>The project directory of a request and the three entries the writer puts there,
  as absolute paths.\<close>

definition package_dir_of :: "coach \<Rightarrow> env \<Rightarrow> string \<Rightarrow> path" where
  "package_dir_of C E user_request = path_join (output_dir C) (blueprint_name_of E user_request)"

definition lib_rs_of :: "coach \<Rightarrow> env \<Rightarrow> string \<Rightarrow> path" where
  "lib_rs_of C E user_request = path_join (path_join (package_dir_of C E user_request) ''src'') ''lib.rs''"

definition artifact_paths :: "coach \<Rightarrow> env \<Rightarrow> string \<Rightarrow> string list list" where
  "artifact_paths C E user_request =
     (let package_dir = package_dir_of C E user_request in
      map (resolve (cwd E))
        [package_dir, path_join package_dir ''src'', path_join package_dir ''Cargo.toml'',
         lib_rs_of C E user_request])"

text \<open>The prompts sent to the completion service between two states of the world.\<close>

definition prompts_sent :: "world \<Rightarrow> world \<Rightarrow> string list" where
  "prompts_sent w w' = drop (length (llm_calls w)) (llm_calls w')"

definition saved_since :: "world \<Rightarrow> world \<Rightarrow> output_data list" where
  "saved_since w w' = drop (length (saved w)) (saved w')"

section \<open>Example runs\<close>

text \<open>
  A small world: the working directory \<^verbatim>\<open>/work\<close> exists and nothing has happened yet.
  In \<open>demo_env\<close> the completion service gives its \<open>n\<close>-th answer whatever the prompt,
  and the \<open>n\<close>-th process started behaves as \<open>processes n\<close>.
\<close>

definition demo_world :: world where
  "demo_world =
     \<lparr>fs = [[''work''] \<mapsto> Dir], llm_calls = [], proc_calls = [], saved = [],
      clock_reads = 0\<rparr>"

definition demo_env :: "(nat \<Rightarrow> exn + string) \<Rightarrow> (nat \<Rightarrow> proc_behaviour) \<Rightarrow> env" where
  "demo_env answers processes =
     \<lparr>cwd = [''work''], getenv_api_key = Some ''sk-demo'', str_hash = (\<lambda>s. 1234567),
      llm = (\<lambda>n full_prompt. answers n),
      proc = (\<lambda>n argv dir. processes n),
      now = (\<lambda>n. ''2024-01-01T00:00:0'' @ str_nat n),
      save_error = (\<lambda>n. None)\<rparr>"

text \<open>The coach that \<open>coach_init\<close> builds in this world, and the world it leaves.\<close>

definition default_coach :: coach where
  "default_coach =
     \<lparr>api_key = ''sk-demo'', output_dir = Path False [''output''], kb_context = []\<rparr>"

definition default_world :: world where
  "default_world = demo_world\<lparr>fs := [[''work''] \<mapsto> Dir, [''work'', ''output''] \<mapsto> Dir]\<rparr>"

text \<open>The same coach after \<^verbatim>\<open>coach.output_dir = Path.cwd() / "output"\<close>.\<close>

definition absolute_coach :: coach where
  "absolute_coach = default_coach\<lparr>output_dir := Path True [''work'', ''output'']\<rparr>"

definition rust_answer :: string where
  "rust_answer = ''use scrypto::prelude::*;''"

definition prose_answer :: string where
  "prose_answer = ''Sorry, I cannot help.''"

definition check_fails :: proc_behaviour where
  "check_fails = Exits 101 [] ''error[E0425]'' 3"

definition exits_ok :: proc_behaviour where
  "exits_ok = Exits 0 ''ok'' [] 5"

text \<open>The service never returns code.\<close>

definition prose_env :: env where
  "prose_env = demo_env (\<lambda>n. Inr prose_answer) (\<lambda>n. check_fails)"

text \<open>The service always returns code, and the compile check always fails.\<close>

definition build_fails_env :: env where
  "build_fails_env = demo_env (\<lambda>n. Inr rust_answer) (\<lambda>n. check_fails)"

text \<open>As before, but the second answer is prose.\<close>

definition stale_env :: env where
  "stale_env =
     demo_env (\<lambda>n. if n = 1 then Inr prose_answer else Inr rust_answer) (\<lambda>n. check_fails)"

text \<open>The first compile check fails, every later process succeeds.\<close>

definition second_try_env :: env where
  "second_try_env =
     demo_env (\<lambda>n. Inr rust_answer) (\<lambda>n. if n = 0 then check_fails else exits_ok)"

text \<open>Two different answers with code.\<close>

definition two_codes_env :: env where
  "two_codes_env =
     demo_env (\<lambda>n. if n = 0 then Inr ''impl A {}'' else Inr ''impl B {}'') (\<lambda>n. check_fails)"

text \<open>Another interpreter process: the string hash is salted differently.\<close>

definition rehashed_env :: env where
  "rehashed_env = build_fails_env\<lparr>str_hash := (\<lambda>s. 7654321)\<rparr>"

text \<open>The first request passes at once (check and test succeed), afterwards every
  compile check fails.\<close>

definition batch_env :: env where
  "batch_env =
     demo_env (\<lambda>n. Inr rust_answer) (\<lambda>n. if n < 2 then exits_ok else check_fails)"

section \<open>Properties of the code extractor\<close>

lemma starts_with_iff: "starts_with p s \<longleftrightarrow> (\<exists>r. s = p @ r)"
  by (induction p s rule: starts_with.induct) auto

lemma starts_with_drop: "starts_with p s \<Longrightarrow> s = p @ drop (length p) s"
  by (auto simp: starts_with_iff)

lemma contains_iff: "contains needle s \<longleftrightarrow> (\<exists>a b. s = a @ needle @ b)"
proof (induction s)
  case Nil
  then show ?case by auto
next
  case (Cons c cs)
  show ?case
  proof
    assume "contains needle (c # cs)"
    then consider "starts_with needle (c # cs)" | "contains needle cs" by auto
    then show "\<exists>a b. c # cs = a @ needle @ b"
    proof cases
      case 1
      then obtain r where "c # cs = needle @ r" by (auto simp: starts_with_iff)
      then have "c # cs = [] @ needle @ r" by simp
      then show ?thesis by blast
    next
      case 2
      then obtain a b where "cs = a @ needle @ b" using Cons.IH by auto
      then have "c # cs = (c # a) @ needle @ b" by simp
      then show ?thesis by blast
    qed
  next
    assume "\<exists>a b. c # cs = a @ needle @ b"
    then obtain a b where ab: "c # cs = a @ needle @ b" by blast
    show "contains needle (c # cs)"
    proof (cases a)
      case Nil
      then have "starts_with needle (c # cs)" using ab by (simp add: starts_with_iff)
      then show ?thesis by simp
    next
      case (Cons x a')
      then have "cs = a' @ needle @ b" using ab by simp
      then show ?thesis using Cons.IH by auto
    qed
  qed
qed

lemma split_first_SomeD: "split_first needle s = Some (b, a) \<Longrightarrow> s = b @ needle @ a"
proof (induction s arbitrary: b)
  case Nil
  then show ?case by (auto split: if_splits)
next
  case (Cons c cs)
  show ?case
  proof (cases "starts_with needle (c # cs)")
    case True
    then show ?thesis using Cons.prems starts_with_drop[OF True] by simp
  next
    case False
    then obtain b' where "split_first needle cs = Some (b', a)" "b = c # b'"
      using Cons.prems by (auto split: option.splits)
    then show ?thesis using Cons.IH by simp
  qed
qed

lemma split_first_append: "\<exists>b x. split_first needle (a @ needle @ r) = Some (b, x @ r)"
proof (induction a)
  case Nil
  show ?case
  proof (cases "needle @ r")
    case Nil
    then show ?thesis by simp
  next
    case (Cons c cs)
    have "starts_with needle (needle @ r)" by (simp add: starts_with_iff)
    then show ?thesis using Cons by (auto simp: starts_with_iff)
  qed
next
  case (Cons c a)
  show ?case
  proof (cases "starts_with needle (c # a @ needle @ r)")
    case True
    have "drop (length needle) ((c # a @ needle) @ r) = drop (length needle) (c # a @ needle) @ r"
      by (subst drop_append) simp
    then have "drop (length needle) (c # a @ needle @ r) = drop (length needle) (c # a @ needle) @ r"
      by simp
    moreover have "split_first needle (c # a @ needle @ r)
        = Some ([], drop (length needle) (c # a @ needle @ r))"
      using True by simp
    ultimately show ?thesis by (simp del: split_first.simps drop_append)
  next
    case False
    then show ?thesis using Cons.IH by auto
  qed
qed

lemma matches_iff: "matches pat s \<longleftrightarrow> (\<exists>a b c. s = a @ fst pat @ b @ snd pat @ c)"
proof
  assume "matches pat s"
  then obtain blk where "first_match pat s = Some blk"
    by (auto simp: matches_def)
  then obtain b1 rest a2 where
    1: "split_first (fst pat) s = Some (b1, rest)" and 2: "split_first (snd pat) rest = Some (blk, a2)"
    unfolding first_match_def by (auto split: option.splits)
  have "s = b1 @ fst pat @ rest" by (rule split_first_SomeD[OF 1])
  moreover have "rest = blk @ snd pat @ a2" by (rule split_first_SomeD[OF 2])
  ultimately have "s = b1 @ fst pat @ blk @ snd pat @ a2" by simp
  then show "\<exists>a b c. s = a @ fst pat @ b @ snd pat @ c" by blast
next
  assume "\<exists>a b c. s = a @ fst pat @ b @ snd pat @ c"
  then obtain a b c where s: "s = a @ fst pat @ (b @ snd pat @ c)" by auto
  obtain b1 x where 1: "split_first (fst pat) s = Some (b1, x @ (b @ snd pat @ c))"
    using split_first_append[of "fst pat" a "b @ snd pat @ c"] unfolding s by blast
  obtain b2 y where 2: "split_first (snd pat) ((x @ b) @ snd pat @ c) = Some (b2, y @ c)"
    using split_first_append[of "snd pat" "x @ b" c] by blast
  have "first_match pat s = Some b2"
    unfolding first_match_def using 1 2 by simp
  then show "matches pat s" by (simp add: matches_def)
qed

lemma matches_weaken:
  "matches (pre @ x, y @ suf) s \<Longrightarrow> matches (pre, suf) s"
proof -
  assume "matches (pre @ x, y @ suf) s"
  then obtain a b c where "s = a @ (pre @ x) @ b @ (y @ suf) @ c"
    by (auto simp: matches_iff)
  then have "s = a @ pre @ (x @ b @ y) @ suf @ c" by simp
  then have "\<exists>a b c. s = a @ fst (pre, suf) @ b @ snd (pre, suf) @ c"
    unfolding fst_conv snd_conv by blast
  then show ?thesis by (simp only: matches_iff)
qed

lemma try_patterns_find:
  "try_patterns ps t = find looks_like_scrypto (map strip (List.map_filter (\<lambda>p. first_match p t) ps))"
  by (induction ps) (auto simp: List.map_filter_simps Let_def split: option.splits)

lemma looks_like_impl: "contains ''impl'' t \<Longrightarrow> looks_like_scrypto t"
  by (simp add: looks_like_scrypto_def scrypto_indicators_def)



lemma code_patterns_length: "length code_patterns = 5"
  by (simp add: code_patterns_def)

lemma last_pattern_most_general:
  assumes "pattern \<in> set code_patterns" and "matches pattern s"
  shows "matches (''```'', ''```'') s"
proof -
  have "matches (''```'' @ x, y @ ''```'') s \<Longrightarrow> matches (''```'', ''```'') s" for x y
    by (rule matches_weaken)
  from this[of "''rust\<newline>''" "''\<newline>''"] this[of "''scrypto\<newline>''" "''\<newline>''"]
    this[of "''\<newline>''" "''\<newline>''"] this[of "''rust''" "[]"] assms
  show ?thesis by (auto simp: code_patterns_def)
qed

lemma rust_newline_more_specific:
  assumes "matches (''```rust\<newline>'', ''\<newline>```'') s"
  shows "matches (''```rust'', ''```'') s"
  using matches_weaken[of "''```rust''" "''\<newline>''" "''\<newline>''" "''```''" s] assms by simp

lemma separating_texts:
  assumes "j < 5"
  shows "\<exists>s. matches (code_patterns ! j) s \<and> (\<forall>i<j. \<not> matches (code_patterns ! i) s)"
proof -
  have 0: "matches (code_patterns ! 0) ''```rust\<newline>\<newline>```''"
    by code_simp
  have 1: "matches (code_patterns ! 1) ''```scrypto\<newline>\<newline>```''
      \<and> \<not> matches (code_patterns ! 0) ''```scrypto\<newline>\<newline>```''"
    by code_simp
  have 2: "matches (code_patterns ! 2) ''```\<newline>\<newline>```''
      \<and> \<not> matches (code_patterns ! 0) ''```\<newline>\<newline>```''
      \<and> \<not> matches (code_patterns ! 1) ''```\<newline>\<newline>```''"
    by code_simp
  have 3: "matches (code_patterns ! 3) ''```rust```''
      \<and> \<not> matches (code_patterns ! 0) ''```rust```''
      \<and> \<not> matches (code_patterns ! 1) ''```rust```''
      \<and> \<not> matches (code_patterns ! 2) ''```rust```''"
    by code_simp
  have 4: "matches (code_patterns ! 4) ''``````''
      \<and> \<not> matches (code_patterns ! 0) ''``````''
      \<and> \<not> matches (code_patterns ! 1) ''``````''
      \<and> \<not> matches (code_patterns ! 2) ''``````''
      \<and> \<not> matches (code_patterns ! 3) ''``````''"
    by code_simp
  have 10: "\<forall>i<1. \<not> matches (code_patterns ! i) ''```scrypto\<newline>\<newline>```''"
    using 1 by simp
  have 20: "\<forall>i<2. \<not> matches (code_patterns ! i) ''```\<newline>\<newline>```''"
    by code_simp
  have 30: "\<forall>i<3. \<not> matches (code_patterns ! i) ''```rust```''"
    by code_simp
  have 40: "\<forall>i<4. \<not> matches (code_patterns ! i) ''``````''"
    by code_simp
  from assms consider "j = 0" | "j = 1" | "j = 2" | "j = 3" | "j = 4" by linarith
  then show ?thesis
  proof cases
    case 1 then show ?thesis using 0 by auto
  next
    case 2 then show ?thesis using 1 10 by blast
  next
    case 3 then show ?thesis using 2 20 by blast
  next
    case 4 then show ?thesis using 3 30 by blast
  next
    case 5 then show ?thesis using 4 40 by blast
  qed
qed

text \<open>
  Claim C6. The code extractor tries the fenced-block patterns in the order of the list
  and returns the first matched block (stripped) that passes the signature check; when
  no matched block passes it and the whole response does, it returns the stripped
  response; otherwise nothing. The list runs from most to least specific: what the
  first pattern matches the fourth matches too, what any pattern matches the last one
  matches too, and every pattern matches some text that no pattern before it matches.
\<close>

theorem extract_scrypto_code_refines_spec:
  "extract_scrypto_code response_text = extractor_spec response_text
   \<and> (\<forall>s. matches (code_patterns ! 0) s \<longrightarrow> matches (code_patterns ! 3) s)
   \<and> (\<forall>pattern \<in> set code_patterns. \<forall>s. matches pattern s \<longrightarrow> matches (last code_patterns) s)
   \<and> (\<forall>j < length code_patterns.
        \<exists>s. matches (code_patterns ! j) s \<and> (\<forall>i<j. \<not> matches (code_patterns ! i) s))"
proof (intro conjI)
  show "extract_scrypto_code response_text = extractor_spec response_text"
    by (simp add: extract_scrypto_code_def extractor_spec_def fenced_blocks_def
        try_patterns_find)
  show "\<forall>s. matches (code_patterns ! 0) s \<longrightarrow> matches (code_patterns ! 3) s"
    using rust_newline_more_specific by (simp add: code_patterns_def)
  have "last code_patterns = (''```'', ''```'')" by (simp add: code_patterns_def)
  then show "\<forall>pattern \<in> set code_patterns. \<forall>s. matches pattern s \<longrightarrow> matches (last code_patterns) s"
    using last_pattern_most_general by simp
  show "\<forall>j < length code_patterns.
        \<exists>s. matches (code_patterns ! j) s \<and> (\<forall>i<j. \<not> matches (code_patterns ! i) s)"
    using separating_texts by (simp add: code_patterns_length)
qed

theorem extract_scrypto_code_refines_spec_witness:
  "extractor_spec ''Here:\<newline>```rust\<newline>use scrypto::prelude::*;\<newline>```'' = Some ''use scrypto::prelude::*;''
   \<and> extractor_spec ''```\<newline>hello\<newline>``` and ```Vault```'' = Some ''```\<newline>hello\<newline>``` and ```Vault```''
   \<and> matches (code_patterns ! 0) ''```rust\<newline>x\<newline>```''
   \<and> matches (code_patterns ! 3) ''```rust\<newline>x\<newline>```''
   \<and> matches (last code_patterns) ''```rust\<newline>x\<newline>```''"
proof -
  have 1: "extract_scrypto_code ''Here:\<newline>```rust\<newline>use scrypto::prelude::*;\<newline>```''
      = Some ''use scrypto::prelude::*;''"
    by code_simp
  have 2: "extract_scrypto_code ''```\<newline>hello\<newline>``` and ```Vault```''
      = Some ''```\<newline>hello\<newline>``` and ```Vault```''"
    by code_simp
  have 3: "matches (code_patterns ! 0) ''```rust\<newline>x\<newline>```''"
    by code_simp
  have 4: "code_patterns ! 0 \<in> set code_patterns"
    by (simp add: code_patterns_def)
  show ?thesis
    using 1 2 3 4
      extract_scrypto_code_refines_spec[of "''Here:\<newline>```rust\<newline>use scrypto::prelude::*;\<newline>```''"]
      extract_scrypto_code_refines_spec[of "''```\<newline>hello\<newline>``` and ```Vault```''"]
    by metis
qed

text \<open>
  Claim C10. The signature check passes for every text that contains \<^verbatim>\<open>impl\<close>, and when
  no fenced block qualifies the extractor then returns the whole (stripped) text; so
  plain prose without any fence, such as the sentence below, is returned as source.
\<close>

theorem prose_accepted_as_code:
  "(\<forall>response. contains ''impl'' response \<longrightarrow>
      looks_like_scrypto response
      \<and> (find looks_like_scrypto (fenced_blocks response) = None
           \<longrightarrow> extract_scrypto_code response = Some (strip response)))
   \<and> fenced_blocks ''This is a simple implementation note.'' = []
   \<and> extract_scrypto_code ''This is a simple implementation note.''
       = Some ''This is a simple implementation note.''"
proof (intro conjI allI impI)
  fix response assume "contains ''impl'' response"
  then show "looks_like_scrypto response" by (rule looks_like_impl)
next
  fix response
  assume "contains ''impl'' response"
    and "find looks_like_scrypto (fenced_blocks response) = None"
  then show "extract_scrypto_code response = Some (strip response)"
    using looks_like_impl[of response]
    by (simp add: extract_scrypto_code_def fenced_blocks_def try_patterns_find)
next
  show "fenced_blocks ''This is a simple implementation note.'' = []"
    by code_simp
  show "extract_scrypto_code ''This is a simple implementation note.''
       = Some ''This is a simple implementation note.''"
    by code_simp
qed

theorem prose_accepted_as_code_witness:
  "contains ''impl'' ''Keep it simple.''
   \<and> looks_like_scrypto ''Keep it simple.''
   \<and> extract_scrypto_code ''Keep it simple.'' = Some ''Keep it simple.''"
proof -
  have c: "contains ''impl'' ''Keep it simple.''" by code_simp
  have f: "find looks_like_scrypto (fenced_blocks ''Keep it simple.'') = None" by code_simp
  have s: "strip ''Keep it simple.'' = ''Keep it simple.''" by code_simp
  show ?thesis using c f s prose_accepted_as_code by metis
qed

section \<open>Properties of the build and test runner\<close>

lemma subprocess_run_exits:
  assumes "proc E (length (proc_calls w)) argv dir = Exits rc out err secs" and "secs \<le> deadline"
  shows "subprocess_run E argv dir deadline w
    = (Inr (rc, out, err), w\<lparr>proc_calls := proc_calls w @ [(argv, dir, deadline)]\<rparr>)"
  using assms by (simp add: subprocess_run_def Let_def)

lemma subprocess_run_failure:
  assumes "phase_failure deadline (proc E (length (proc_calls w)) argv dir) = Some t"
  shows "\<exists>e. subprocess_run E argv dir deadline w
      = (Inl e, w\<lparr>proc_calls := proc_calls w @ [(argv, dir, deadline)]\<rparr>)
    \<and> run_tests_except e = t"
  using assms
  by (auto simp: subprocess_run_def phase_failure_def run_tests_except_def Let_def
      split: proc_behaviour.splits if_splits exn_class.splits)

lemma phase_failure_shape:
  assumes "phase_failure deadline b = Some t"
  shows "\<not> fst t \<and> snd (snd t) \<in> {''timeout'', ''missing_cargo'', ''execution_error''}"
  using assms
  by (auto simp: phase_failure_def split: proc_behaviour.splits if_splits exn_class.splits)

text \<open>
  Claim C4. The two-phase protocol of the runner: when the compile check exits with a
  non-zero code, the result is a failure with the standard error of the check as
  diagnostic, and only the check has been started; when it exits with zero, the test
  process is started, the result is a success exactly when the exit code of the test is
  zero, and the diagnostic is its standard output followed by its standard error.
\<close>

theorem run_tests_two_phase:
  assumes "proc E (length (proc_calls w)) [''cargo'', ''check''] dir = Exits rc out err secs"
    and "secs \<le> 60"
  shows "(rc \<noteq> 0 \<longrightarrow>
            run_tests E dir w =
              ((False, err, ''compilation_error''),
               w\<lparr>proc_calls := proc_calls w @ [([''cargo'', ''check''], dir, 60)]\<rparr>))
       \<and> (rc = 0 \<longrightarrow>
            (\<forall>rc2 out2 err2 secs2.
               proc E (Suc (length (proc_calls w))) [''cargo'', ''test''] dir
                 = Exits rc2 out2 err2 secs2 \<longrightarrow> secs2 \<le> 120 \<longrightarrow>
               run_tests E dir w =
                 ((rc2 = 0, out2 @ err2, ''test_complete''),
                  w\<lparr>proc_calls := proc_calls w
                       @ [([''cargo'', ''check''], dir, 60), ([''cargo'', ''test''], dir, 120)]\<rparr>)))"
proof (intro conjI impI allI)
  assume "rc \<noteq> 0"
  then show "run_tests E dir w =
      ((False, err, ''compilation_error''),
       w\<lparr>proc_calls := proc_calls w @ [([''cargo'', ''check''], dir, 60)]\<rparr>)"
    using subprocess_run_exits[OF assms] by (simp add: run_tests_def)
next
  fix rc2 out2 err2 secs2
  let ?w1 = "w\<lparr>proc_calls := proc_calls w @ [([''cargo'', ''check''], dir, 60)]\<rparr>"
  assume zero: "rc = 0"
    and test: "proc E (Suc (length (proc_calls w))) [''cargo'', ''test''] dir
      = Exits rc2 out2 err2 secs2"
    and in_time: "secs2 \<le> 120"
  have "proc E (length (proc_calls ?w1)) [''cargo'', ''test''] dir = Exits rc2 out2 err2 secs2"
    using test by simp
  from subprocess_run_exits[OF this in_time]
  have "subprocess_run E [''cargo'', ''test''] dir 120 ?w1
      = (Inr (rc2, out2, err2),
         w\<lparr>proc_calls := proc_calls w
            @ [([''cargo'', ''check''], dir, 60), ([''cargo'', ''test''], dir, 120)]\<rparr>)"
    by simp
  then show "run_tests E dir w =
      ((rc2 = 0, out2 @ err2, ''test_complete''),
       w\<lparr>proc_calls := proc_calls w
            @ [([''cargo'', ''check''], dir, 60), ([''cargo'', ''test''], dir, 120)]\<rparr>)"
    using subprocess_run_exits[OF assms] zero by (simp add: run_tests_def)
qed

theorem run_tests_two_phase_witness:
  "run_tests build_fails_env (Path False [''output'', ''p'']) demo_world =
     ((False, ''error[E0425]'', ''compilation_error''),
      demo_world\<lparr>proc_calls := [([''cargo'', ''check''], Path False [''output'', ''p''], 60)]\<rparr>)
   \<and> run_tests batch_env (Path False [''output'', ''p'']) demo_world =
     ((True, ''ok'', ''test_complete''),
      demo_world\<lparr>proc_calls :=
         [([''cargo'', ''check''], Path False [''output'', ''p''], 60),
          ([''cargo'', ''test''], Path False [''output'', ''p''], 120)]\<rparr>)"
proof -
  let ?dir = "Path False [''output'', ''p'']"
  have a: "proc build_fails_env (length (proc_calls demo_world)) [''cargo'', ''check''] ?dir
      = Exits 101 [] ''error[E0425]'' 3"
    by (simp add: build_fails_env_def demo_env_def check_fails_def)
  have b: "proc batch_env (length (proc_calls demo_world)) [''cargo'', ''check''] ?dir
      = Exits 0 ''ok'' [] 5"
    by (simp add: batch_env_def demo_env_def exits_ok_def demo_world_def)
  have c: "proc batch_env (Suc (length (proc_calls demo_world))) [''cargo'', ''test''] ?dir
      = Exits 0 ''ok'' [] 5"
    by (simp add: batch_env_def demo_env_def exits_ok_def demo_world_def)
  have d: "proc_calls demo_world = []" by (simp add: demo_world_def)
  show ?thesis
    using run_tests_two_phase[OF a] run_tests_two_phase[OF b] c d by simp
qed

text \<open>
  Claim C5. When a phase of the runner does not end in time (60 seconds for the check,
  120 for the test), or the command is not found, or starting or reading the process
  raises another exception, the runner returns the failure triple of that case: the
  success flag is false, the kind is \<^verbatim>\<open>timeout\<close>, \<^verbatim>\<open>missing_cargo\<close> or
  \<^verbatim>\<open>execution_error\<close>, and the diagnostic is the message made up by the runner, not what
  the process has written. The runner returns a triple in every case, so no exception
  reaches its caller.
\<close>

theorem run_tests_classifies_exceptions:
  "(phase_failure 60 (proc E (length (proc_calls w)) [''cargo'', ''check''] dir) = Some t
      \<longrightarrow> fst (run_tests E dir w) = t)
   \<and> (proc E (length (proc_calls w)) [''cargo'', ''check''] dir = Exits 0 out err secs
        \<and> secs \<le> 60
        \<and> phase_failure 120 (proc E (Suc (length (proc_calls w))) [''cargo'', ''test''] dir) = Some t
      \<longrightarrow> fst (run_tests E dir w) = t)
   \<and> (phase_failure deadline b = Some t
      \<longrightarrow> \<not> fst t \<and> snd (snd t) \<in> {''timeout'', ''missing_cargo'', ''execution_error''})
   \<and> phase_failure deadline Hangs = Some (False, ''Test execution timed out'', ''timeout'')
   \<and> (deadline < seconds \<longrightarrow>
        phase_failure deadline (Exits returncode stdout stderr seconds)
          = Some (False, ''Test execution timed out'', ''timeout''))
   \<and> phase_failure deadline (Raises (Exn FileNotFoundError msg))
        = Some (False, ''cargo command not found'', ''missing_cargo'')
   \<and> (cls \<noteq> TimeoutExpired \<and> cls \<noteq> FileNotFoundError \<longrightarrow>
        phase_failure deadline (Raises (Exn cls msg))
          = Some (False, ''Test execution failed: '' @ msg, ''execution_error''))"
proof -
  have check: "fst (run_tests E dir w) = t"
    if "phase_failure 60 (proc E (length (proc_calls w)) [''cargo'', ''check''] dir) = Some t"
    using subprocess_run_failure[OF that] by (auto simp: run_tests_def)
  have test: "fst (run_tests E dir w) = t"
    if a: "proc E (length (proc_calls w)) [''cargo'', ''check''] dir = Exits 0 out err secs
        \<and> secs \<le> 60
        \<and> phase_failure 120 (proc E (Suc (length (proc_calls w))) [''cargo'', ''test''] dir) = Some t"
  proof -
    let ?w1 = "w\<lparr>proc_calls := proc_calls w @ [([''cargo'', ''check''], dir, 60)]\<rparr>"
    have 1: "subprocess_run E [''cargo'', ''check''] dir 60 w = (Inr (0, out, err), ?w1)"
      using a subprocess_run_exits by blast
    have "phase_failure 120 (proc E (length (proc_calls ?w1)) [''cargo'', ''test''] dir) = Some t"
      using a by simp
    from subprocess_run_failure[OF this] 1
    show ?thesis by (auto simp: run_tests_def)
  qed
  have other: "phase_failure deadline (Raises (Exn cls msg))
          = Some (False, ''Test execution failed: '' @ msg, ''execution_error'')"
    if "cls \<noteq> TimeoutExpired \<and> cls \<noteq> FileNotFoundError"
    using that by (cases cls) (simp_all add: phase_failure_def)
  have hangs: "phase_failure deadline Hangs = Some (False, ''Test execution timed out'', ''timeout'')"
    by (simp add: phase_failure_def)
  have late: "phase_failure deadline (Exits returncode stdout stderr seconds)
          = Some (False, ''Test execution timed out'', ''timeout'')" if "deadline < seconds"
    using that by (simp add: phase_failure_def)
  have missing: "phase_failure deadline (Raises (Exn FileNotFoundError msg))
        = Some (False, ''cargo command not found'', ''missing_cargo'')"
    by (simp add: phase_failure_def)
  from check test other hangs late missing phase_failure_shape[of deadline b t]
  show ?thesis by blast
qed

theorem run_tests_classifies_exceptions_witness:
  "fst (run_tests (demo_env (\<lambda>n. Inr []) (\<lambda>n. Exits 0 [] ''partial output'' 61))
          (Path False [''output'', ''p'']) demo_world)
     = (False, ''Test execution timed out'', ''timeout'')
   \<and> fst (run_tests (demo_env (\<lambda>n. Inr []) (\<lambda>n. if n = 0 then exits_ok else Hangs))
          (Path False [''output'', ''p'']) demo_world)
     = (False, ''Test execution timed out'', ''timeout'')
   \<and> fst (run_tests (demo_env (\<lambda>n. Inr [])
            (\<lambda>n. Raises (Exn FileNotFoundError ''[Errno 2] No such file or directory'')))
          (Path False [''output'', ''p'']) demo_world)
     = (False, ''cargo command not found'', ''missing_cargo'')
   \<and> fst (run_tests (demo_env (\<lambda>n. Inr [])
            (\<lambda>n. if n = 0 then exits_ok else Raises (Exn OtherException ''boom'')))
          (Path False [''output'', ''p'']) demo_world)
     = (False, ''Test execution failed: boom'', ''execution_error'')"
proof -
  let ?dir = "Path False [''output'', ''p'']"
  let ?E1 = "demo_env (\<lambda>n. Inr []) (\<lambda>n. Exits 0 [] ''partial output'' 61)"
  let ?E2 = "demo_env (\<lambda>n. Inr []) (\<lambda>n. if n = 0 then exits_ok else Hangs)"
  let ?E3 = "demo_env (\<lambda>n. Inr [])
            (\<lambda>n. Raises (Exn FileNotFoundError ''[Errno 2] No such file or directory''))"
  let ?E4 = "demo_env (\<lambda>n. Inr [])
            (\<lambda>n. if n = 0 then exits_ok else Raises (Exn OtherException ''boom''))"
  have 1: "phase_failure 60 (proc ?E1 (length (proc_calls demo_world)) [''cargo'', ''check''] ?dir)
      = Some (False, ''Test execution timed out'', ''timeout'')"
    by (simp add: demo_env_def phase_failure_def)
  have 2: "proc ?E2 (length (proc_calls demo_world)) [''cargo'', ''check''] ?dir = Exits 0 ''ok'' [] 5
        \<and> (5::real) \<le> 60
        \<and> phase_failure 120 (proc ?E2 (Suc (length (proc_calls demo_world))) [''cargo'', ''test''] ?dir)
            = Some (False, ''Test execution timed out'', ''timeout'')"
    by (simp add: demo_env_def phase_failure_def demo_world_def exits_ok_def)
  have 3: "phase_failure 60 (proc ?E3 (length (proc_calls demo_world)) [''cargo'', ''check''] ?dir)
      = Some (False, ''cargo command not found'', ''missing_cargo'')"
    by (simp add: demo_env_def phase_failure_def)
  have 4: "proc ?E4 (length (proc_calls demo_world)) [''cargo'', ''check''] ?dir = Exits 0 ''ok'' [] 5
        \<and> (5::real) \<le> 60
        \<and> phase_failure 120 (proc ?E4 (Suc (length (proc_calls demo_world))) [''cargo'', ''test''] ?dir)
            = Some (False, ''Test execution failed: boom'', ''execution_error'')"
    by (simp add: demo_env_def phase_failure_def demo_world_def exits_ok_def)
  note inst = run_tests_classifies_exceptions[where w = demo_world and dir = ?dir]
  have "fst (run_tests ?E1 ?dir demo_world) = (False, ''Test execution timed out'', ''timeout'')"
    using 1 inst[where E = ?E1 and t = "(False, ''Test execution timed out'', ''timeout'')"]
    by blast
  moreover
  have "fst (run_tests ?E2 ?dir demo_world) = (False, ''Test execution timed out'', ''timeout'')"
    using 2 inst[where E = ?E2 and t = "(False, ''Test execution timed out'', ''timeout'')"
        and out = "''ok''" and err = "[]" and secs = 5]
    by blast
  moreover
  have "fst (run_tests ?E3 ?dir demo_world) = (False, ''cargo command not found'', ''missing_cargo'')"
    using 3 inst[where E = ?E3 and t = "(False, ''cargo command not found'', ''missing_cargo'')"]
    by blast
  moreover
  have "fst (run_tests ?E4 ?dir demo_world)
      = (False, ''Test execution failed: boom'', ''execution_error'')"
    using 4 inst[where E = ?E4 and t = "(False, ''Test execution failed: boom'', ''execution_error'')"
        and out = "''ok''" and err = "[]" and secs = 5]
    by blast
  ultimately show ?thesis by blast
qed

end
